theory Spec2Isabelle
  imports Main "HOL-Library.Sublist"
begin

section \<open>Python strings and sequences\<close>

text \<open>
  Python strings are HOL strings. \<open>startswith\<close> is \<open>str.startswith\<close>, \<open>substr x s\<close> is
  the test \<open>x in s\<close> on two strings, \<open>rstrip\<close> is \<open>str.rstrip()\<close> on ASCII text (the
  white space of \<open>str.isspace\<close> below code point 128).
\<close>

fun startswith :: "string \<Rightarrow> string \<Rightarrow> bool" where
  "startswith [] s = True"
| "startswith (x # xs) [] = False"
| "startswith (x # xs) (y # ys) = (x = y \<and> startswith xs ys)"

fun substr :: "string \<Rightarrow> string \<Rightarrow> bool" where
  "substr x [] = (x = [])"
| "substr x (c # cs) = (startswith x (c # cs) \<or> substr x cs)"

definition isspace :: "char \<Rightarrow> bool" where
  "isspace c = (c = CHR '' '' \<or> c = CHR 0x09 \<or> c = CHR 0x0A \<or> c = CHR 0x0B \<or> c = CHR 0x0C
     \<or> c = CHR 0x0D \<or> c = CHR 0x1C \<or> c = CHR 0x1D \<or> c = CHR 0x1E \<or> c = CHR 0x1F)"

definition rstrip :: "string \<Rightarrow> string" where
  "rstrip s = rev (dropWhile isspace (rev s))"

text \<open>
  The right operand of \<open>in\<close> in \<open>submodules_install\<close> is whatever the caller passes:
  a tuple of strings, or a string. On a tuple \<open>in\<close> is membership, on a string it is the
  substring test.
\<close>

datatype pyseq = PyTuple "string list" | PyStr string

fun py_in :: "string \<Rightarrow> pyseq \<Rightarrow> bool" where
  "py_in x (PyTuple xs) = (x \<in> set xs)"
| "py_in x (PyStr s) = substr x s"

section \<open>Paths\<close>

text \<open>
  \<open>join\<close> is \<open>posixpath.join\<close> on two arguments. A path string is resolved against the
  current directory to the list of its components, \<open>.\<close> and empty components dropped and
  \<open>..\<close> resolved lexically (there are no symbolic links in this model).
\<close>

definition join :: "string \<Rightarrow> string \<Rightarrow> string" where
  "join a b = (if startswith ''/'' b then b
               else if a = [] \<or> last a = CHR ''/'' then a @ b
               else a @ ''/'' @ b)"

fun split_sep :: "string \<Rightarrow> string list" where
  "split_sep [] = [[]]"
| "split_sep (c # cs) =
     (if c = CHR ''/'' then [] # split_sep cs
      else (case split_sep cs of [] \<Rightarrow> [[c]] | x # xs \<Rightarrow> (c # x) # xs))"

definition norm_step :: "string list \<Rightarrow> string \<Rightarrow> string list" where
  "norm_step st c = (if c = [] \<or> c = ''.'' then st
                     else if c = ''..'' then butlast st
                     else st @ [c])"

definition normalize :: "string list \<Rightarrow> string list" where
  "normalize cs = foldl norm_step [] cs"

definition resolve :: "string \<Rightarrow> string \<Rightarrow> string list" where
  "resolve wd p = normalize (split_sep (if startswith ''/'' p then p else wd @ ''/'' @ p))"

definition basename :: "string \<Rightarrow> string" where
  "basename p = last (split_sep p)"

fun common_prefix_len :: "string list \<Rightarrow> string list \<Rightarrow> nat" where
  "common_prefix_len (x # xs) (y # ys) = (if x = y then Suc (common_prefix_len xs ys) else 0)"
| "common_prefix_len _ _ = 0"

fun join_list :: "string list \<Rightarrow> string" where
  "join_list [] = []"
| "join_list [c] = c"
| "join_list (c # cs) = join c (join_list cs)"

text \<open>\<open>relpath wd p start\<close> is \<open>os.path.relpath(p, start)\<close> for a non-empty \<open>p\<close>.\<close>

definition relpath :: "string \<Rightarrow> string \<Rightarrow> string \<Rightarrow> string" where
  "relpath wd p start =
     (let start_list = resolve wd start;
          path_list = resolve wd p;
          i = common_prefix_len start_list path_list;
          rel_list = replicate (length start_list - i) ''..'' @ drop i path_list
      in if rel_list = [] then ''.'' else join_list rel_list)"

section \<open>The file system\<close>

datatype node = File string | Dir "string \<Rightarrow> node option"

fun lookup :: "node \<Rightarrow> string list \<Rightarrow> node option" where
  "lookup n [] = Some n"
| "lookup (File s) (c # cs) = None"
| "lookup (Dir m) (c # cs) = (case m c of None \<Rightarrow> None | Some n \<Rightarrow> lookup n cs)"

text \<open>\<open>store n p v\<close> puts \<open>v\<close> at \<open>p\<close> (removes the entry when \<open>v\<close> is \<open>None\<close>); it
  changes nothing when the parent of \<open>p\<close> is not a directory.\<close>

fun store :: "node \<Rightarrow> string list \<Rightarrow> node option \<Rightarrow> node" where
  "store n [] v = (case v of None \<Rightarrow> n | Some n' \<Rightarrow> n')"
| "store (File s) (c # cs) v = File s"
| "store (Dir m) [c] v = Dir (m(c := v))"
| "store (Dir m) (c # cs) v =
     (case m c of None \<Rightarrow> Dir m | Some n \<Rightarrow> Dir (m(c \<mapsto> store n cs v)))"

fun fresh_dirs :: "string list \<Rightarrow> node" where
  "fresh_dirs [] = Dir (\<lambda>c. None)"
| "fresh_dirs (c # cs) = Dir ((\<lambda>c. None)(c \<mapsto> fresh_dirs cs))"

definition is_dir :: "node \<Rightarrow> string list \<Rightarrow> bool" where
  "is_dir root p = (case lookup root p of Some (Dir m) \<Rightarrow> True | _ \<Rightarrow> False)"

definition is_file :: "node \<Rightarrow> string list \<Rightarrow> bool" where
  "is_file root p = (case lookup root p of Some (File s) \<Rightarrow> True | _ \<Rightarrow> False)"

section \<open>The process state, exceptions and outcomes\<close>

datatype exn =
    FileNotFoundError string
  | FileExistsError string
  | NotADirectoryError string
  | IsADirectoryError string
  | ShutilError string
  | OSError string
  | VcsOperationFailed string
  | ManifestError string
  | FatalError string

text \<open>Every use of the version-control interface is recorded, in order.\<close>

datatype call =
    Construct string
  | Operation string "string list"
  | ConfigSet string string string string

record world =
  cwd :: string
  fs :: node
  out :: "string list"
  warnings :: "string list"
  calls :: "call list"

text \<open>A statement returns normally with a value, raises with the state it reached, or
  the bound on the nesting depth of manifests is used up.\<close>

datatype 'a outcome = Ok 'a world | Raise exn world | OutOfFuel

definition bind :: "'a outcome \<Rightarrow> ('a \<Rightarrow> world \<Rightarrow> 'b outcome) \<Rightarrow> 'b outcome" where
  "bind m f = (case m of Ok x w \<Rightarrow> f x w | Raise e w \<Rightarrow> Raise e w | OutOfFuel \<Rightarrow> OutOfFuel)"

definition print :: "string \<Rightarrow> world \<Rightarrow> world" where
  "print s w = w\<lparr>out := out w @ [s]\<rparr>"

definition logging_warning :: "string \<Rightarrow> world \<Rightarrow> world" where
  "logging_warning s w = w\<lparr>warnings := warnings w @ [s]\<rparr>"

subsection \<open>\<open>os\<close>, \<open>os.path\<close> and \<open>shutil\<close>\<close>

definition os_path_exists :: "world \<Rightarrow> string \<Rightarrow> bool" where
  "os_path_exists w p = (p \<noteq> [] \<and> lookup (fs w) (resolve (cwd w) p) \<noteq> None)"

definition os_path_isdir :: "world \<Rightarrow> string \<Rightarrow> bool" where
  "os_path_isdir w p = (p \<noteq> [] \<and> is_dir (fs w) (resolve (cwd w) p))"

definition os_path_isfile :: "world \<Rightarrow> string \<Rightarrow> bool" where
  "os_path_isfile w p = (p \<noteq> [] \<and> is_file (fs w) (resolve (cwd w) p))"

fun makedirs_at :: "string \<Rightarrow> node \<Rightarrow> string list \<Rightarrow> exn + node" where
  "makedirs_at p n [] = Inl (FileExistsError p)"
| "makedirs_at p (File s) (c # cs) = Inl (NotADirectoryError p)"
| "makedirs_at p (Dir m) (c # cs) =
     (case m c of
        None \<Rightarrow> Inr (Dir (m(c \<mapsto> fresh_dirs cs)))
      | Some n \<Rightarrow> (case makedirs_at p n cs of
                    Inl e \<Rightarrow> Inl e
                  | Inr n' \<Rightarrow> Inr (Dir (m(c \<mapsto> n')))))"

definition os_makedirs :: "string \<Rightarrow> world \<Rightarrow> unit outcome" where
  "os_makedirs p w =
     (if p = [] then Raise (FileNotFoundError p) w
      else (case makedirs_at p (fs w) (resolve (cwd w) p) of
              Inl e \<Rightarrow> Raise e w
            | Inr r \<Rightarrow> Ok () (w\<lparr>fs := r\<rparr>)))"

text \<open>\<open>open(p, "w")\<close> followed by one \<open>write\<close>.\<close>

definition write_file :: "string \<Rightarrow> string \<Rightarrow> world \<Rightarrow> unit outcome" where
  "write_file p content w =
     (let t = resolve (cwd w) p in
      if p = [] then Raise (FileNotFoundError p) w
      else if t = [] \<or> is_dir (fs w) t then Raise (IsADirectoryError p) w
      else if is_file (fs w) (butlast t) then Raise (NotADirectoryError p) w
      else if \<not> is_dir (fs w) (butlast t) then Raise (FileNotFoundError p) w
      else Ok () (w\<lparr>fs := store (fs w) t (Some (File content))\<rparr>))"

definition shutil_copy :: "string \<Rightarrow> string \<Rightarrow> world \<Rightarrow> unit outcome" where
  "shutil_copy src dst w =
     (let dst' = (if os_path_isdir w dst then join dst (basename src) else dst) in
      case (if src = [] then None else lookup (fs w) (resolve (cwd w) src)) of
        None \<Rightarrow> Raise (FileNotFoundError src) w
      | Some (Dir m) \<Rightarrow> Raise (IsADirectoryError src) w
      | Some (File content) \<Rightarrow>
          if dst' \<noteq> [] \<and> resolve (cwd w) src = resolve (cwd w) dst'
          then Raise (ShutilError src) w
          else write_file dst' content w)"

definition os_unlink :: "string \<Rightarrow> world \<Rightarrow> unit outcome" where
  "os_unlink p w =
     (if \<not> os_path_exists w p then Raise (FileNotFoundError p) w
      else if os_path_isdir w p then Raise (IsADirectoryError p) w
      else Ok () (w\<lparr>fs := store (fs w) (resolve (cwd w) p) None\<rparr>))"

text \<open>\<open>os.rename\<close>, as \<open>rename(2)\<close> on one device.\<close>

definition os_rename :: "string \<Rightarrow> string \<Rightarrow> world \<Rightarrow> unit outcome" where
  "os_rename src dst w =
     (let s = resolve (cwd w) src; d = resolve (cwd w) dst in
      case (if src = [] \<or> dst = [] then None else lookup (fs w) s) of
        None \<Rightarrow> Raise (FileNotFoundError src) w
      | Some n \<Rightarrow>
          if s = d then Ok () w
          else if s = [] \<or> d = [] \<or> take (length s) d = s then Raise (OSError dst) w
          else if is_file (fs w) (butlast d) then Raise (NotADirectoryError dst) w
          else if \<not> is_dir (fs w) (butlast d) then Raise (FileNotFoundError dst) w
          else if is_dir (fs w) d \<and> \<not> is_dir (fs w) s then Raise (IsADirectoryError dst) w
          else if is_file (fs w) d \<and> is_dir (fs w) s then Raise (NotADirectoryError dst) w
          else if is_dir (fs w) d \<and> lookup (fs w) d \<noteq> Some (Dir (\<lambda>c. None))
          then Raise (OSError dst) w
          else Ok () (w\<lparr>fs := store (store (fs w) s None) d (Some n)\<rparr>))"

text \<open>\<open>shutil.copytree(src, dst)\<close> followed by \<open>shutil.rmtree(src)\<close>, for a directory
  \<open>src\<close> that does not contain \<open>dst\<close>: \<open>copytree\<close> starts with \<open>os.makedirs(dst)\<close>.\<close>

definition copytree_rmtree :: "string \<Rightarrow> string \<Rightarrow> world \<Rightarrow> unit outcome" where
  "copytree_rmtree src dst w =
     (if dst = [] then Raise (FileNotFoundError dst) w
      else (case makedirs_at dst (fs w) (resolve (cwd w) dst) of
              Inl e \<Rightarrow> Raise e w
            | Inr r \<Rightarrow>
                Ok () (w\<lparr>fs := store (store r (resolve (cwd w) dst)
                                       (lookup (fs w) (resolve (cwd w) src)))
                                 (resolve (cwd w) src) None\<rparr>)))"

definition strip_sep :: "string \<Rightarrow> string" where
  "strip_sep p = rev (dropWhile (\<lambda>c. c = CHR ''/'') (rev p))"

definition samefile :: "world \<Rightarrow> string \<Rightarrow> string \<Rightarrow> bool" where
  "samefile w a b = (os_path_exists w a \<and> os_path_exists w b
                      \<and> resolve (cwd w) a = resolve (cwd w) b)"

definition destinsrc :: "world \<Rightarrow> string \<Rightarrow> string \<Rightarrow> bool" where
  "destinsrc w src dst =
     (take (length (resolve (cwd w) src)) (resolve (cwd w) dst) = resolve (cwd w) src)"

definition shutil_move :: "string \<Rightarrow> string \<Rightarrow> world \<Rightarrow> unit outcome" where
  "shutil_move src dst w =
     (if os_path_isdir w dst \<and> samefile w src dst then os_rename src dst w
      else
        let real_dst = (if os_path_isdir w dst then join dst (basename (strip_sep src))
                        else dst)
        in if os_path_isdir w dst \<and> os_path_exists w real_dst
           then Raise (ShutilError real_dst) w
           else (case os_rename src real_dst w of
                   Ok u w' \<Rightarrow> Ok u w'
                 | OutOfFuel \<Rightarrow> OutOfFuel
                 | Raise e w' \<Rightarrow>
                     if os_path_isdir w src then
                       (if destinsrc w src dst then Raise (ShutilError dst) w
                        else copytree_rmtree src real_dst w)
                     else bind (shutil_copy src real_dst w) (\<lambda>u. os_unlink src)))"

section \<open>The collaborators that are not part of the source file\<close>

text \<open>
  \<open>GitModules\<close> (module \<open>modules.gitmodules\<close>) is used through \<open>sections()\<close>,
  \<open>get(name, option)\<close> and, in \<open>submodules_status\<close>, \<open>git(name, option)\<close>. None of them
  is in the source file: a manifest object is the record of these three, each option value a
  string (the empty string for an option without value).
\<close>

record gitmodules =
  sections :: "string list"
  get :: "string \<Rightarrow> string \<Rightarrow> string"
  git :: "string \<Rightarrow> string \<Rightarrow> string"

text \<open>
  \<open>GitInterface\<close> (module \<open>modules.gitinterface\<close>) runs the version-control tool. Its
  constructor, \<open>git_operation\<close> and \<open>config_set_value\<close> are parameters: each receives the
  current directory, the repository path the object was built for, its arguments and the file
  system; it returns the new file system and either the exception raised or its result.
  \<open>read_gitmodules\<close> is the constructor \<open>GitModules(confpath)\<close>.
\<close>

record env =
  git_construct :: "string \<Rightarrow> string \<Rightarrow> node \<Rightarrow> exn option \<times> node"
  git_operation :: "string \<Rightarrow> string \<Rightarrow> string list \<Rightarrow> node \<Rightarrow> (exn + string) \<times> node"
  config_set_value ::
    "string \<Rightarrow> string \<Rightarrow> string \<Rightarrow> string \<Rightarrow> string \<Rightarrow> node \<Rightarrow> exn option \<times> node"
  read_gitmodules :: "string \<Rightarrow> string \<Rightarrow> node \<Rightarrow> exn + gitmodules"

text \<open>A \<open>GitInterface\<close> object is the repository path it was built for.\<close>

definition GitInterface :: "env \<Rightarrow> string \<Rightarrow> world \<Rightarrow> string outcome" where
  "GitInterface E repo_path w =
     (let (r, fs') = git_construct E (cwd w) repo_path (fs w);
          w' = w\<lparr>fs := fs', calls := calls w @ [Construct repo_path]\<rparr>
      in case r of None \<Rightarrow> Ok repo_path w' | Some e \<Rightarrow> Raise e w')"

definition git_op :: "env \<Rightarrow> string \<Rightarrow> string list \<Rightarrow> world \<Rightarrow> string outcome" where
  "git_op E repo_path args w =
     (let (r, fs') = git_operation E (cwd w) repo_path args (fs w);
          w' = w\<lparr>fs := fs', calls := calls w @ [Operation repo_path args]\<rparr>
      in case r of Inr output \<Rightarrow> Ok output w' | Inl e \<Rightarrow> Raise e w')"

definition config_set ::
  "env \<Rightarrow> string \<Rightarrow> string \<Rightarrow> string \<Rightarrow> string \<Rightarrow> world \<Rightarrow> unit outcome" where
  "config_set E repo_path section key val w =
     (let (r, fs') = config_set_value E (cwd w) repo_path section key val (fs w);
          w' = w\<lparr>fs := fs', calls := calls w @ [ConfigSet repo_path section key val]\<rparr>
      in case r of None \<Rightarrow> Ok () w' | Some e \<Rightarrow> Raise e w')"

definition GitModules :: "env \<Rightarrow> string \<Rightarrow> world \<Rightarrow> gitmodules outcome" where
  "GitModules E confpath w =
     (case read_gitmodules E (cwd w) confpath (fs w) of
        Inr g \<Rightarrow> Ok g w
      | Inl e \<Rightarrow> Raise e w)"

text \<open>
  Modelled from the spec: \<open>utils.pushd\<close> and \<open>utils.fatal_error\<close> are not in the source
  file. \<open>pushd\<close> changes the current directory for the body of the \<open>with\<close> statement and
  restores it afterwards; \<open>fatal_error\<close> ends the run with its message.
\<close>

definition abspath :: "string \<Rightarrow> string \<Rightarrow> string" where
  "abspath wd p = (let cs = resolve wd p in
                   if cs = [] then ''/'' else concat (map (\<lambda>c. CHR ''/'' # c) cs))"

definition pushd :: "string \<Rightarrow> (world \<Rightarrow> 'a outcome) \<Rightarrow> world \<Rightarrow> 'a outcome" where
  "pushd new_dir body w =
     (if \<not> os_path_exists w new_dir then Raise (FileNotFoundError new_dir) w
      else if \<not> os_path_isdir w new_dir then Raise (NotADirectoryError new_dir) w
      else (case body (w\<lparr>cwd := abspath (cwd w) new_dir\<rparr>) of
              Ok x w' \<Rightarrow> Ok x (w'\<lparr>cwd := cwd w\<rparr>)
            | Raise e w' \<Rightarrow> Raise e (w'\<lparr>cwd := cwd w\<rparr>)
            | OutOfFuel \<Rightarrow> OutOfFuel))"

definition fatal_error :: "string \<Rightarrow> world \<Rightarrow> unit outcome" where
  "fatal_error message w = Raise (FatalError message) w"

section \<open>The program\<close>

subsection \<open>\<open>commandline_arguments\<close>: the accepted classes and the action\<close>

definition esmrequired_of :: "bool \<Rightarrow> pyseq" where
  "esmrequired_of optional =
     (if optional then PyTuple [''T:T'', ''T:F'', ''I:T''] else PyTuple [''T:T'', ''I:T''])"

definition action_of :: "bool \<Rightarrow> bool \<Rightarrow> string" where
  "action_of status update =
     (if status then ''status'' else if update then ''update'' else ''install'')"

subsection \<open>\<open>submodule_sparse_checkout\<close>\<close>

text \<open>Lines 190 to 199 of the function: the metadata directory is moved into the store of
  the containing repository, the sparse specification is copied into it, and the pointer file
  is written. \<open>topgit\<close> is the store directory, \<open>gitsparse\<close> the sparse-checkout slot.\<close>

definition relocate_metadata ::
  "string \<Rightarrow> string \<Rightarrow> string \<Rightarrow> string \<Rightarrow> string \<Rightarrow> world \<Rightarrow> unit outcome" where
  "relocate_metadata topgit gitsparse name path sparsefile w =
     bind (if \<not> os_path_isdir w topgit then os_makedirs topgit w else Ok () w) (\<lambda>u w.
     bind (shutil_move (join path ''.git'') (join topgit name) w) (\<lambda>u w.
     bind (shutil_copy (join path sparsefile) gitsparse w) (\<lambda>u w.
     write_file (join path ''.git'')
       (''gitdir: '' @ relpath (cwd w) (join topgit name) path) w)))"

definition submodule_sparse_checkout ::
  "env \<Rightarrow> string \<Rightarrow> string \<Rightarrow> string \<Rightarrow> string \<Rightarrow> string \<Rightarrow> world \<Rightarrow> unit outcome" where
  "submodule_sparse_checkout E name url path sparsefile tag w =
     bind (if \<not> os_path_isdir w path then os_makedirs path w else Ok () w) (\<lambda>u w.
     bind (GitInterface E (cwd w) w) (\<lambda>git w.
     bind (git_op E git [''rev-parse'', ''--show-toplevel''] w) (\<lambda>output w.
     let topdir = rstrip output;
         topgit = join (join topdir ''.git'') ''modules'';
         gitsparse = join (join (join topgit name) ''info'') ''sparse-checkout''
     in if os_path_isfile w gitsparse
        then Ok () (logging_warning (''submodule '' @ name @ '' is already initialized'') w)
        else
          bind (GitInterface E (join topdir path) w) (\<lambda>sprepo_git w.
          bind (config_set E sprepo_git ''core'' ''sparseCheckout'' ''true'' w) (\<lambda>u w.
          bind (git_op E sprepo_git [''remote'', ''add'', ''origin'', url] w) (\<lambda>u w.
          bind (relocate_metadata topgit gitsparse name path sparsefile w) (\<lambda>u w.
          bind (git_op E sprepo_git [''fetch'', ''--depth=1'', ''origin'', ''--tags''] w) (\<lambda>u w.
          bind (git_op E sprepo_git [''checkout'', tag] w) (\<lambda>u w.
          Ok () (print (''Successfully checked out '' @ name) w))))))))))"

subsection \<open>\<open>submodule_checkout\<close> and \<open>submodules_install\<close>\<close>

text \<open>
  The two functions call each other: a full checkout that finds a manifest in the directory
  it populated installs that manifest, which may check out further components. The first
  argument bounds the depth of this nesting. \<open>submodules_install_loop\<close> is the \<open>for\<close> loop
  of \<open>submodules_install\<close> over the names still to be processed.
\<close>

fun submodule_checkout ::
      "nat \<Rightarrow> env \<Rightarrow> string \<Rightarrow> string \<Rightarrow> string \<Rightarrow> world \<Rightarrow> unit outcome"
  and submodules_install_loop ::
      "nat \<Rightarrow> env \<Rightarrow> gitmodules \<Rightarrow> string \<Rightarrow> pyseq \<Rightarrow> string list \<Rightarrow> world \<Rightarrow> unit outcome"
where
  "submodule_checkout n E root name path w =
     bind (GitInterface E root w) (\<lambda>git w.
     let repodir = join root path in
     bind (git_op E git [''submodule'', ''update'', ''--init'', path] w) (\<lambda>u w.
     bind (if os_path_exists w (join repodir ''.gitmodules'')
           then bind (Ok () (print (''Recursively checking out submodules of '' @ name
                                       @ '' '' @ repodir) w)) (\<lambda>u w.
                bind (GitModules E repodir w) (\<lambda>gitmodules w.
                  (case n of
                     0 \<Rightarrow> OutOfFuel
                   | Suc k \<Rightarrow> submodules_install_loop k E gitmodules repodir (PyStr ''I:T'')
                               (sections gitmodules) w)))
           else Ok () w) (\<lambda>u w.
     if os_path_exists w (join repodir ''.git'')
     then Ok () (print (''Successfully checked out '' @ name) w)
     else fatal_error (''Failed to checkout '' @ name) w)))"
| "submodules_install_loop n E gitmodules root_dir requiredlist [] w = Ok () w"
| "submodules_install_loop n E gitmodules root_dir requiredlist (name # rest) w =
     (let esmrequired = get gitmodules name ''esmrequired'';
          esmsparse = get gitmodules name ''esmsparse'';
          esmtag = get gitmodules name ''esmtag'';
          path = get gitmodules name ''path'';
          url = get gitmodules name ''url''
      in if \<not> py_in esmrequired requiredlist then
           submodules_install_loop n E gitmodules root_dir requiredlist rest
             (if substr ''T:F'' esmrequired
              then print (''Skipping optional component '' @ name) w else w)
         else if esmsparse \<noteq> [] then
           bind (submodule_sparse_checkout E name url path esmsparse esmtag w) (\<lambda>u w.
             submodules_install_loop n E gitmodules root_dir requiredlist rest w)
         else
           bind (submodule_checkout n E root_dir name path w) (\<lambda>u w.
             submodules_install_loop n E gitmodules root_dir requiredlist rest w))"

definition submodules_install ::
  "nat \<Rightarrow> env \<Rightarrow> gitmodules \<Rightarrow> string \<Rightarrow> pyseq \<Rightarrow> world \<Rightarrow> unit outcome" where
  "submodules_install n E gitmodules root_dir requiredlist w =
     submodules_install_loop n E gitmodules root_dir requiredlist (sections gitmodules) w"

subsection \<open>\<open>submodules_status\<close>\<close>

fun submodules_status_loop ::
  "env \<Rightarrow> gitmodules \<Rightarrow> string \<Rightarrow> string list \<Rightarrow> world \<Rightarrow> unit outcome" where
  "submodules_status_loop E gitmodules root_dir [] w = Ok () w"
| "submodules_status_loop E gitmodules root_dir (name # rest) w =
     (let path = get gitmodules name ''path'';
          tag = git gitmodules name ''esmtag''
      in bind (pushd path (\<lambda>w.
                 bind (GitInterface E (join root_dir path) w) (\<lambda>g w.
                 bind (git_op E g [''describe'', ''--tags'', ''--always''] w) (\<lambda>output w.
                 let atag = rstrip output in
                 if tag \<noteq> [] \<and> atag \<noteq> tag then
                   Ok () (print (''Submodule '' @ name @ '' '' @ atag
                                   @ '' is out of sync with .gitmodules '' @ tag) w)
                 else if tag \<noteq> [] then
                   Ok () (print (''Submodule '' @ name @ '' at tag '' @ tag) w)
                 else
                   Ok () (print (''Submodule '' @ name
                                   @ '' has no tag defined in .gitmodules'') w)))) w)
           (\<lambda>u w. submodules_status_loop E gitmodules root_dir rest w))"

definition submodules_status :: "env \<Rightarrow> gitmodules \<Rightarrow> string \<Rightarrow> world \<Rightarrow> unit outcome" where
  "submodules_status E gitmodules root_dir w =
     submodules_status_loop E gitmodules root_dir (sections gitmodules) w"

subsection \<open>\<open>submodules_update\<close>\<close>

fun submodules_update_loop ::
  "env \<Rightarrow> gitmodules \<Rightarrow> string \<Rightarrow> string list \<Rightarrow> world \<Rightarrow> unit outcome" where
  "submodules_update_loop E gitmodules root_dir [] w = Ok () w"
| "submodules_update_loop E gitmodules root_dir (name # rest) w =
     (let esmtag = get gitmodules name ''esmtag'';
          path = get gitmodules name ''path'';
          url = get gitmodules name ''url''
      in bind (if os_path_exists w (join path ''.git'') then
                 pushd root_dir (\<lambda>w.
                   bind (GitInterface E root_dir w) (\<lambda>g w.
                   bind (git_op E g [''ls-remote'', ''--get-url''] w) (\<lambda>output w.
                   let upstream = rstrip output in
                   if upstream \<noteq> url then
                     bind (git_op E g [''remote'', ''add'', ''newbranch'', url] w) (\<lambda>r w.
                     bind (git_op E g [''checkout'', esmtag] w) (\<lambda>r w. Ok () w))
                   else Ok () w))) w
               else Ok () w)
           (\<lambda>u w. submodules_update_loop E gitmodules root_dir rest w))"

definition submodules_update :: "env \<Rightarrow> gitmodules \<Rightarrow> string \<Rightarrow> world \<Rightarrow> unit outcome" where
  "submodules_update E gitmodules root_dir w =
     submodules_update_loop E gitmodules root_dir (sections gitmodules) w"

subsection \<open>\<open>_main_func\<close>\<close>

definition main_func ::
  "nat \<Rightarrow> env \<Rightarrow> gitmodules \<Rightarrow> string \<Rightarrow> bool \<Rightarrow> bool \<Rightarrow> bool \<Rightarrow> world \<Rightarrow> unit outcome" where
  "main_func n E gitmodules root_dir optional status update w =
     (let esmrequired = esmrequired_of optional;
          action = action_of status update
      in if action = ''update'' then submodules_update E gitmodules root_dir w
         else if action = ''install'' then submodules_install n E gitmodules root_dir esmrequired w
         else if action = ''status'' then submodules_status E gitmodules root_dir w
         else fatal_error (''unrecognized action request '' @ action) w)"

section \<open>Notions used in the statements\<close>

text \<open>The store directory \<open>topgit\<close> and the sparse-checkout slot \<open>gitsparse\<close> of
  \<open>submodule_sparse_checkout\<close>, as functions of the top-level directory and the name.\<close>

definition store_dir :: "string \<Rightarrow> string" where
  "store_dir topdir = join (join topdir ''.git'') ''modules''"

definition sparse_slot :: "string \<Rightarrow> string \<Rightarrow> string" where
  "sparse_slot topdir name = join (join (join (store_dir topdir) name) ''info'') ''sparse-checkout''"

text \<open>The line \<open>submodules_status\<close> prints for a component, as the specification
  words the classification: no declared revision, declared and equal to the description,
  declared and different.\<close>

definition status_line :: "string \<Rightarrow> string \<Rightarrow> string \<Rightarrow> string" where
  "status_line name tag atag =
     (if tag = [] then ''Submodule '' @ name @ '' has no tag defined in .gitmodules''
      else if atag = tag then ''Submodule '' @ name @ '' at tag '' @ tag
      else ''Submodule '' @ name @ '' '' @ atag @ '' is out of sync with .gitmodules '' @ tag)"

section \<open>Example manifests and environments\<close>

text \<open>A manifest object built from its sections, each a list of options; in the examples
  \<open>git\<close> reads an option like \<open>get\<close>.\<close>

definition manifest :: "(string \<times> (string \<times> string) list) list \<Rightarrow> gitmodules" where
  "manifest secs =
     \<lparr>sections = map fst secs,
      get = (\<lambda>name option. case map_of secs name of None \<Rightarrow> []
               | Some kv \<Rightarrow> (case map_of kv option of None \<Rightarrow> [] | Some v \<Rightarrow> v)),
      git = (\<lambda>name option. case map_of secs name of None \<Rightarrow> []
               | Some kv \<Rightarrow> (case map_of kv option of None \<Rightarrow> [] | Some v \<Rightarrow> v))\<rparr>"

definition ex_manifest :: gitmodules where
  "ex_manifest = manifest
     [(''foo'', [(''path'', ''ext/foo''), (''url'', ''https://x/foo.git''),
                 (''esmtag'', ''v1.0''), (''esmrequired'', ''I:T'')]),
      (''bar'', [(''path'', ''ext/bar''), (''url'', ''https://x/bar.git''),
                 (''esmtag'', ''v2.0''), (''esmrequired'', ''T:F'')]),
      (''baz'', [(''path'', ''ext/baz''), (''url'', ''https://x/baz.git''),
                 (''esmtag'', ''''), (''esmrequired'', '''')])]"

definition ex_nested :: gitmodules where
  "ex_nested = manifest
     [(''sub'', [(''path'', ''sub''), (''url'', ''https://x/sub.git''), (''esmrequired'', '''')])]"

definition populate :: "node \<Rightarrow> string list \<Rightarrow> node" where
  "populate root t = store (case makedirs_at [] root t of Inr r \<Rightarrow> r | Inl e \<Rightarrow> root)
                        (t @ [''.git'']) (Some (File ''gitdir''))"

definition ex_env :: env where
  "ex_env =
     \<lparr>git_construct = (\<lambda>wd repo root. (None, root)),
      git_operation = (\<lambda>wd repo args root.
         if take 3 args = [''submodule'', ''update'', ''--init''] then
           (Inr [], (let t = resolve wd (join repo (args ! 3)); r = populate root t in
                     if args ! 3 = ''ext/foo''
                     then store r (t @ [''.gitmodules'']) (Some (File [])) else r))
         else (Inr [], root)),
      config_set_value = (\<lambda>wd repo s k v root. (None, root)),
      read_gitmodules = (\<lambda>wd p root. Inr ex_nested)\<rparr>"

definition ex_world :: world where
  "ex_world = \<lparr>cwd = ''/top'', fs = Dir (\<lambda>c. None), out = [], warnings = [], calls = []\<rparr>"

text \<open>A component with a sparse specification, an environment whose constructor
  initialises a repository where there is none, a world where nothing is checked out yet and
  a world where the component is already in the store.\<close>

definition ex_sparse_manifest :: gitmodules where
  "ex_sparse_manifest = manifest
     [(''sp'', [(''path'', ''ext/sp''), (''url'', ''https://x/sp.git''),
                (''esmtag'', ''v3.0''), (''esmrequired'', ''T:F''),
                (''esmsparse'', ''../.sp_sparse'')])]"

definition ex_git_dir :: node where
  "ex_git_dir = Dir ((\<lambda>c. None)(''info'' \<mapsto> Dir (\<lambda>c. None), ''HEAD'' \<mapsto> File ''ref''))"

definition ex_git_env :: env where
  "ex_git_env =
     \<lparr>git_construct = (\<lambda>wd repo root.
         (None, if lookup root (resolve wd (join repo ''.git'')) = None
                then store root (resolve wd (join repo ''.git'')) (Some ex_git_dir)
                else root)),
      git_operation = (\<lambda>wd repo args root.
         if args = [''rev-parse'', ''--show-toplevel''] then (Inr (''/top'' @ [CHR 0x0A]), root)
         else (Inr [], root)),
      config_set_value = (\<lambda>wd repo s k v root. (None, root)),
      read_gitmodules = (\<lambda>wd p root. Inl (ManifestError p))\<rparr>"

definition ex_sparse_world :: world where
  "ex_sparse_world =
     \<lparr>cwd = ''/top'',
      fs = Dir ((\<lambda>c. None)(''top'' \<mapsto> Dir ((\<lambda>c. None)(''ext'' \<mapsto>
             Dir ((\<lambda>c. None)(''.sp_sparse'' \<mapsto> File ''src/'')))))),
      out = [], warnings = [], calls = []\<rparr>"

definition ex_initialized_world :: world where
  "ex_initialized_world =
     \<lparr>cwd = ''/top'',
      fs = Dir ((\<lambda>c. None)(''top'' \<mapsto> Dir ((\<lambda>c. None)(
             ''ext'' \<mapsto> Dir ((\<lambda>c. None)(
                ''.sp_sparse'' \<mapsto> File ''src/'',
                ''sp'' \<mapsto> Dir ((\<lambda>c. None)(
                   ''.git'' \<mapsto> File ''gitdir: ../../.git/modules/sp'')))),
             ''.git'' \<mapsto> Dir ((\<lambda>c. None)(
                ''modules'' \<mapsto> Dir ((\<lambda>c. None)(
                   ''sp'' \<mapsto> Dir ((\<lambda>c. None)(
                      ''HEAD'' \<mapsto> File ''ref'',
                      ''info'' \<mapsto> Dir ((\<lambda>c. None)(
                         ''sparse-checkout'' \<mapsto> File ''src/'')))))))))))),
      out = [], warnings = [], calls = []\<rparr>"

text \<open>A world where the three components of \<open>ex_manifest\<close> are checked out, an
  environment that answers the queries of status and update, and one whose every
  version-control operation fails.\<close>

definition ex_checked_out :: world where
  "ex_checked_out =
     \<lparr>cwd = ''/top'',
      fs = populate (populate (populate (Dir (\<lambda>c. None)) [''top'', ''ext'', ''foo''])
             [''top'', ''ext'', ''bar'']) [''top'', ''ext'', ''baz''],
      out = [], warnings = [], calls = []\<rparr>"

definition ex_query_env :: env where
  "ex_query_env =
     \<lparr>git_construct = (\<lambda>wd repo root. (None, root)),
      git_operation = (\<lambda>wd repo args root.
         if args = [''describe'', ''--tags'', ''--always''] then (Inr (''v1.0'' @ [CHR 0x0A]), root)
         else if args = [''ls-remote'', ''--get-url'']
         then (Inr (''https://x/foo.git'' @ [CHR 0x0A]), root)
         else (Inr [], root)),
      config_set_value = (\<lambda>wd repo s k v root. (None, root)),
      read_gitmodules = (\<lambda>wd p root. Inl (ManifestError p))\<rparr>"

definition ex_failing_env :: env where
  "ex_failing_env =
     \<lparr>git_construct = (\<lambda>wd repo root. (None, root)),
      git_operation = (\<lambda>wd repo args root. (Inl (VcsOperationFailed (hd args)), root)),
      config_set_value = (\<lambda>wd repo s k v root. (None, root)),
      read_gitmodules = (\<lambda>wd p root. Inl (ManifestError p))\<rparr>"

section \<open>Properties\<close>

subsection \<open>The membership test of \<open>submodules_install\<close>\<close>

lemma install_skip:
  assumes "\<not> py_in (get gm name ''esmrequired'') req"
  shows "submodules_install_loop n E gm root req (name # rest) w =
         submodules_install_loop n E gm root req rest
           (if substr ''T:F'' (get gm name ''esmrequired'')
            then print (''Skipping optional component '' @ name) w else w)"
  using assms by (simp add: Let_def)

lemma install_accept:
  assumes "py_in (get gm name ''esmrequired'') req"
  shows "submodules_install_loop n E gm root req (name # rest) w =
         bind (if get gm name ''esmsparse'' \<noteq> []
               then submodule_sparse_checkout E name (get gm name ''url'') (get gm name ''path'')
                      (get gm name ''esmsparse'') (get gm name ''esmtag'') w
               else submodule_checkout n E root name (get gm name ''path'') w)
           (\<lambda>u w. submodules_install_loop n E gm root req rest w)"
  using assms by (simp add: Let_def)

lemmas ex_simps = ex_manifest_def manifest_def ex_nested_def esmrequired_of_def ex_world_def
  ex_env_def Let_def bind_def GitInterface_def git_op_def join_def os_path_exists_def
  resolve_def normalize_def norm_step_def populate_def print_def GitModules_def fatal_error_def

lemmas run_simps = manifest_def esmrequired_of_def
  Let_def bind_def GitInterface_def git_op_def config_set_def join_def os_path_exists_def
  os_path_isdir_def os_path_isfile_def is_dir_def is_file_def
  resolve_def normalize_def norm_step_def print_def logging_warning_def GitModules_def
  fatal_error_def submodule_sparse_checkout_def relocate_metadata_def os_makedirs_def
  shutil_move_def shutil_copy_def write_file_def os_rename_def samefile_def destinsrc_def
  copytree_rmtree_def strip_sep_def basename_def relpath_def rstrip_def isspace_def
  os_unlink_def

lemmas ex_defs = ex_manifest_def ex_nested_def ex_world_def ex_env_def populate_def
  ex_sparse_manifest_def ex_git_dir_def ex_git_env_def ex_sparse_world_def
  ex_initialized_world_def sparse_slot_def store_dir_def

lemmas ex_defs2 = ex_checked_out_def ex_query_env_def ex_failing_env_def

subsection \<open>Sequencing and iteration\<close>

lemma bind_bind_ok: "bind (bind m (\<lambda>u w. Ok () w)) f = bind m f"
  by (cases m) (simp_all add: bind_def)

lemma bind_ok_left: "bind (Ok x w) f = f x w"
  by (simp add: bind_def)


lemma bind_raise_left: "m = Raise e w' \<Longrightarrow> bind m f = Raise e w'"
  by (simp add: bind_def)

lemma status_loop_nil: "submodules_status_loop E gm root [] = (\<lambda>w. Ok () w)"
  by (rule ext) simp

lemma update_loop_nil: "submodules_update_loop E gm root [] = (\<lambda>w. Ok () w)"
  by (rule ext) simp

lemma install_loop_nil: "submodules_install_loop n E gm root req [] = (\<lambda>w. Ok () w)"
  by (rule ext) simp

lemma status_loop_cons:
  "submodules_status_loop E gm root (name # rest) w =
   bind (submodules_status_loop E gm root [name] w)
        (\<lambda>u w. submodules_status_loop E gm root rest w)"
  by (simp only: submodules_status_loop.simps(2) status_loop_nil Let_def bind_bind_ok)

lemma update_loop_cons:
  "submodules_update_loop E gm root (name # rest) w =
   bind (submodules_update_loop E gm root [name] w)
        (\<lambda>u w. submodules_update_loop E gm root rest w)"
  by (simp only: submodules_update_loop.simps(2) update_loop_nil Let_def bind_bind_ok)

lemma install_loop_cons:
  "submodules_install_loop n E gm root req (name # rest) w =
   bind (submodules_install_loop n E gm root req [name] w)
        (\<lambda>u w. submodules_install_loop n E gm root req rest w)"
proof (cases "py_in (get gm name ''esmrequired'') req")
  case False
  show ?thesis
    by (simp only: install_skip [OF False] submodules_install_loop.simps(1) bind_ok_left)
next
  case True
  show ?thesis
    by (simp only: install_accept [OF True] install_loop_nil bind_bind_ok)
qed


subsection \<open>The runs of the two checkout strategies\<close>

lemma isdir_exists: "os_path_isdir w p \<Longrightarrow> os_path_exists w p"
  by (auto simp: os_path_isdir_def os_path_exists_def is_dir_def split: option.splits)

lemma os_path_frame:
  "os_path_exists (calls_update g w) p = os_path_exists w p"
  "os_path_exists (out_update h w) p = os_path_exists w p"
  "os_path_exists (warnings_update h w) p = os_path_exists w p"
  "os_path_isdir (calls_update g w) p = os_path_isdir w p"
  "os_path_isdir (out_update h w) p = os_path_isdir w p"
  "os_path_isdir (warnings_update h w) p = os_path_isdir w p"
  "os_path_isfile (calls_update g w) p = os_path_isfile w p"
  "os_path_isfile (out_update h w) p = os_path_isfile w p"
  "os_path_isfile (warnings_update h w) p = os_path_isfile w p"
  by (simp_all add: os_path_exists_def os_path_isdir_def os_path_isfile_def)

lemma full_checkout_run:
  assumes "git_construct E (cwd w) root (fs w) = (None, fa)"
      and "git_operation E (cwd w) root [''submodule'', ''update'', ''--init'', path] fa
           = (Inr x, fb)"
      and "(\<not> os_path_exists (w\<lparr>fs := fb\<rparr>) (join (join root path) ''.gitmodules'')
            \<and> wn = w\<lparr>fs := fb,
                       calls := calls w @ [Construct root,
                          Operation root [''submodule'', ''update'', ''--init'', path]]\<rparr>)
           \<or> (os_path_exists (w\<lparr>fs := fb\<rparr>) (join (join root path) ''.gitmodules'')
               \<and> GitModules E (join root path)
                    (print (''Recursively checking out submodules of '' @ name
                              @ '' '' @ join root path)
                       (w\<lparr>fs := fb,
                          calls := calls w @ [Construct root,
                             Operation root [''submodule'', ''update'', ''--init'', path]]\<rparr>))
                  = Ok g wg
               \<and> n = Suc k
               \<and> submodules_install k E g (join root path) (PyStr ''I:T'') wg = Ok () wn)"
  shows "submodule_checkout n E root name path w =
         (if os_path_exists wn (join (join root path) ''.git'')
          then Ok () (print (''Successfully checked out '' @ name) wn)
          else Raise (FatalError (''Failed to checkout '' @ name)) wn)"
  using assms(3)
proof
  assume "\<not> os_path_exists (w\<lparr>fs := fb\<rparr>) (join (join root path) ''.gitmodules'')
            \<and> wn = w\<lparr>fs := fb,
                       calls := calls w @ [Construct root,
                          Operation root [''submodule'', ''update'', ''--init'', path]]\<rparr>"
  then show ?thesis using assms(1,2)
    by (simp add: Let_def bind_def GitInterface_def git_op_def os_path_frame fatal_error_def)
next
  assume "os_path_exists (w\<lparr>fs := fb\<rparr>) (join (join root path) ''.gitmodules'')
               \<and> GitModules E (join root path)
                    (print (''Recursively checking out submodules of '' @ name
                              @ '' '' @ join root path)
                       (w\<lparr>fs := fb,
                          calls := calls w @ [Construct root,
                             Operation root [''submodule'', ''update'', ''--init'', path]]\<rparr>))
                  = Ok g wg
               \<and> n = Suc k
               \<and> submodules_install k E g (join root path) (PyStr ''I:T'') wg = Ok () wn"
  then show ?thesis using assms(1,2)
    by (simp add: Let_def bind_def GitInterface_def git_op_def os_path_frame fatal_error_def
          submodules_install_def)
qed



lemma pushd_isdir:
  "os_path_isdir w p \<Longrightarrow>
   pushd p body w = (case body (w\<lparr>cwd := abspath (cwd w) p\<rparr>) of
                       Ok x w' \<Rightarrow> Ok x (w'\<lparr>cwd := cwd w\<rparr>)
                     | Raise e w' \<Rightarrow> Raise e (w'\<lparr>cwd := cwd w\<rparr>)
                     | OutOfFuel \<Rightarrow> OutOfFuel)"
  by (simp add: pushd_def isdir_exists)

text \<open>
  C1. The nested install pass is called with \<open>("I:T")\<close>, which is the string \<open>I:T\<close> and
  not a tuple, so its membership test is a substring test and the empty class passes it.
  In the run below the root manifest has the internal-required component \<open>foo\<close>, whose
  checkout brings a manifest with the single component \<open>sub\<close> of empty class: \<open>sub\<close> is
  checked out, where the claim says it is skipped.
\<close>

theorem nested_empty_class_is_checked_out:
  "(case submodules_install 1 ex_env ex_manifest ''/top'' (esmrequired_of False) ex_world of
      Ok u w \<Rightarrow>
        get ex_nested ''sub'' ''esmrequired'' = []
        \<and> calls w = [Construct ''/top'',
                     Operation ''/top'' [''submodule'', ''update'', ''--init'', ''ext/foo''],
                     Construct ''/top/ext/foo'',
                     Operation ''/top/ext/foo'' [''submodule'', ''update'', ''--init'', ''sub'']]
        \<and> out w = [''Recursively checking out submodules of foo /top/ext/foo'',
                   ''Successfully checked out sub'',
                   ''Successfully checked out foo'',
                   ''Skipping optional component bar'']
    | Raise e w \<Rightarrow> False
    | OutOfFuel \<Rightarrow> False)"
  by (simp add: submodules_install_def ex_simps)

text \<open>
  C2, as stated, fails: no function of the program handles an exception, so a
  version-control operation that fails while the status operation processes the first
  component ends the operation there. Nothing is printed for any component and no call is
  made for the second and third.
\<close>

theorem status_stops_at_failure:
  "sections ex_manifest = [''foo'', ''bar'', ''baz'']
   \<and> (case main_func 0 ex_failing_env ex_manifest ''/top'' False True False ex_checked_out of
         Ok u w \<Rightarrow> False
       | Raise e w \<Rightarrow>
           e = VcsOperationFailed ''describe''
           \<and> out w = []
           \<and> calls w = [Construct ''/top/ext/foo'',
                        Operation ''/top/ext/foo'' [''describe'', ''--tags'', ''--always'']]
       | OutOfFuel \<Rightarrow> False)"
  by (simp add: main_func_def action_of_def submodules_status_def pushd_def abspath_def
        run_simps ex_defs ex_defs2)

text \<open>
  C2, amended. When a version-control operation fails while a component is processed, the
  failure ends the operation at that component, in the status and update operations as well
  as in install: the run returns that failure with the calls made so far, and none of the
  remaining components is processed. In general a failure of the pass over one component is
  the failure of the pass over that component followed by any others.
\<close>

theorem failure_ends_operation:
  "(os_path_isdir w (get gm name ''path'') \<longrightarrow>
      git_construct E (abspath (cwd w) (get gm name ''path''))
        (join root (get gm name ''path'')) (fs w) = (None, fa) \<longrightarrow>
      git_operation E (abspath (cwd w) (get gm name ''path''))
        (join root (get gm name ''path'')) [''describe'', ''--tags'', ''--always''] fa
        = (Inl e, fb) \<longrightarrow>
      submodules_status_loop E gm root (name # rest) w =
        Raise e (w\<lparr>fs := fb,
                   calls := calls w @ [Construct (join root (get gm name ''path'')),
                      Operation (join root (get gm name ''path''))
                        [''describe'', ''--tags'', ''--always'']]\<rparr>))
   \<and> (os_path_exists w (join (get gm name ''path'') ''.git'') \<longrightarrow>
      os_path_isdir w root \<longrightarrow>
      git_construct E (abspath (cwd w) root) root (fs w) = (None, fa) \<longrightarrow>
      git_operation E (abspath (cwd w) root) root [''ls-remote'', ''--get-url''] fa
        = (Inl e, fb) \<longrightarrow>
      submodules_update_loop E gm root (name # rest) w =
        Raise e (w\<lparr>fs := fb,
                   calls := calls w @ [Construct root,
                      Operation root [''ls-remote'', ''--get-url'']]\<rparr>))
   \<and> (py_in (get gm name ''esmrequired'') req \<longrightarrow>
      get gm name ''esmsparse'' = [] \<longrightarrow>
      git_construct E (cwd w) root (fs w) = (None, fa) \<longrightarrow>
      git_operation E (cwd w) root
        [''submodule'', ''update'', ''--init'', get gm name ''path''] fa = (Inl e, fb) \<longrightarrow>
      submodules_install_loop n E gm root req (name # rest) w =
        Raise e (w\<lparr>fs := fb,
                   calls := calls w @ [Construct root,
                      Operation root
                        [''submodule'', ''update'', ''--init'', get gm name ''path'']]\<rparr>))
   \<and> (submodules_status_loop E gm root [name] w = Raise e w' \<longrightarrow>
      submodules_status_loop E gm root (name # rest) w = Raise e w')
   \<and> (submodules_update_loop E gm root [name] w = Raise e w' \<longrightarrow>
      submodules_update_loop E gm root (name # rest) w = Raise e w')
   \<and> (submodules_install_loop n E gm root req [name] w = Raise e w' \<longrightarrow>
      submodules_install_loop n E gm root req (name # rest) w = Raise e w')"
proof (intro conjI impI)
  assume "os_path_isdir w (get gm name ''path'')"
    and "git_construct E (abspath (cwd w) (get gm name ''path''))
        (join root (get gm name ''path'')) (fs w) = (None, fa)"
    and "git_operation E (abspath (cwd w) (get gm name ''path''))
        (join root (get gm name ''path'')) [''describe'', ''--tags'', ''--always''] fa
        = (Inl e, fb)"
  then show "submodules_status_loop E gm root (name # rest) w =
        Raise e (w\<lparr>fs := fb,
                   calls := calls w @ [Construct (join root (get gm name ''path'')),
                      Operation (join root (get gm name ''path''))
                        [''describe'', ''--tags'', ''--always'']]\<rparr>)"
    by (simp add: Let_def bind_def pushd_isdir GitInterface_def git_op_def)
next
  assume "os_path_exists w (join (get gm name ''path'') ''.git'')"
    and "os_path_isdir w root"
    and "git_construct E (abspath (cwd w) root) root (fs w) = (None, fa)"
    and "git_operation E (abspath (cwd w) root) root [''ls-remote'', ''--get-url''] fa
        = (Inl e, fb)"
  then show "submodules_update_loop E gm root (name # rest) w =
        Raise e (w\<lparr>fs := fb,
                   calls := calls w @ [Construct root,
                      Operation root [''ls-remote'', ''--get-url'']]\<rparr>)"
    by (simp add: Let_def bind_def pushd_isdir GitInterface_def git_op_def)
next
  assume a: "py_in (get gm name ''esmrequired'') req"
    and "get gm name ''esmsparse'' = []"
    and "git_construct E (cwd w) root (fs w) = (None, fa)"
    and "git_operation E (cwd w) root
        [''submodule'', ''update'', ''--init'', get gm name ''path''] fa = (Inl e, fb)"
  then show "submodules_install_loop n E gm root req (name # rest) w =
        Raise e (w\<lparr>fs := fb,
                   calls := calls w @ [Construct root,
                      Operation root
                        [''submodule'', ''update'', ''--init'', get gm name ''path'']]\<rparr>)"
    by (simp only: install_accept [OF a])
       (simp add: Let_def bind_def GitInterface_def git_op_def)
next
  assume "submodules_status_loop E gm root [name] w = Raise e w'"
  then show "submodules_status_loop E gm root (name # rest) w = Raise e w'"
    using status_loop_cons [of E gm root name rest w] by (simp only: bind_raise_left)
next
  assume "submodules_update_loop E gm root [name] w = Raise e w'"
  then show "submodules_update_loop E gm root (name # rest) w = Raise e w'"
    using update_loop_cons [of E gm root name rest w] by (simp only: bind_raise_left)
next
  assume "submodules_install_loop n E gm root req [name] w = Raise e w'"
  then show "submodules_install_loop n E gm root req (name # rest) w = Raise e w'"
    using install_loop_cons [of n E gm root req name rest w] by (simp only: bind_raise_left)
qed

theorem failure_ends_operation_witness:
  "submodules_status_loop ex_failing_env ex_manifest ''/top'' [''foo'', ''bar'', ''baz'']
      ex_checked_out =
     Raise (VcsOperationFailed ''describe'')
       (ex_checked_out\<lparr>calls := [Construct ''/top/ext/foo'',
           Operation ''/top/ext/foo'' [''describe'', ''--tags'', ''--always'']]\<rparr>)
   \<and> submodules_update_loop ex_failing_env ex_manifest ''/top'' [''foo'', ''bar'', ''baz'']
      ex_checked_out =
     Raise (VcsOperationFailed ''ls-remote'')
       (ex_checked_out\<lparr>calls := [Construct ''/top'',
           Operation ''/top'' [''ls-remote'', ''--get-url'']]\<rparr>)
   \<and> submodules_install_loop 0 ex_failing_env ex_manifest ''/top'' (esmrequired_of False)
      [''foo'', ''bar'', ''baz''] ex_checked_out =
     Raise (VcsOperationFailed ''submodule'')
       (ex_checked_out\<lparr>calls := [Construct ''/top'',
           Operation ''/top'' [''submodule'', ''update'', ''--init'', ''ext/foo'']]\<rparr>)"
proof -
  have s: "submodules_status_loop ex_failing_env ex_manifest ''/top'' [''foo'', ''bar'', ''baz'']
      ex_checked_out =
     Raise (VcsOperationFailed ''describe'')
       (ex_checked_out\<lparr>calls := [Construct ''/top/ext/foo'',
           Operation ''/top/ext/foo'' [''describe'', ''--tags'', ''--always'']]\<rparr>)"
    by (rule trans [OF failure_ends_operation [THEN conjunct1, rule_format,
            where fa = "fs ex_checked_out" and fb = "fs ex_checked_out"
              and e = "VcsOperationFailed ''describe''"]])
       (simp_all add: run_simps ex_defs ex_defs2 abspath_def)
  have u: "submodules_update_loop ex_failing_env ex_manifest ''/top'' [''foo'', ''bar'', ''baz'']
      ex_checked_out =
     Raise (VcsOperationFailed ''ls-remote'')
       (ex_checked_out\<lparr>calls := [Construct ''/top'',
           Operation ''/top'' [''ls-remote'', ''--get-url'']]\<rparr>)"
    by (rule trans [OF failure_ends_operation [THEN conjunct2, THEN conjunct1, rule_format,
            where fa = "fs ex_checked_out" and fb = "fs ex_checked_out"
              and e = "VcsOperationFailed ''ls-remote''"]])
       (simp_all add: run_simps ex_defs ex_defs2 abspath_def)
  have i: "submodules_install_loop 0 ex_failing_env ex_manifest ''/top'' (esmrequired_of False)
      [''foo'', ''bar'', ''baz''] ex_checked_out =
     Raise (VcsOperationFailed ''submodule'')
       (ex_checked_out\<lparr>calls := [Construct ''/top'',
           Operation ''/top'' [''submodule'', ''update'', ''--init'', ''ext/foo'']]\<rparr>)"
    by (rule trans [OF failure_ends_operation [THEN conjunct2, THEN conjunct2, THEN conjunct1,
            rule_format,
            where fa = "fs ex_checked_out" and fb = "fs ex_checked_out"
              and e = "VcsOperationFailed ''submodule''"]])
       (simp_all add: run_simps ex_defs ex_defs2)
  from s u i show ?thesis by (intro conjI)
qed




text \<open>
  C6. The line the status operation prints for a component is a function of the declared
  revision and the description the version-control tool returns (its trailing white space
  removed): out of sync when a declared revision exists and the description differs, at tag
  when it exists and they are equal, no tag defined when there is no declared revision,
  whatever the description. The declared revision is what \<open>gitmodules.git(name, "esmtag")\<close>
  returns; the hypotheses say that the directory of the component exists and that the
  constructor and the describe operation succeed.
\<close>

theorem status_classification:
  assumes "os_path_isdir w (get gm name ''path'')"
      and "git_construct E (abspath (cwd w) (get gm name ''path''))
             (join root (get gm name ''path'')) (fs w) = (None, fa)"
      and "git_operation E (abspath (cwd w) (get gm name ''path''))
             (join root (get gm name ''path'')) [''describe'', ''--tags'', ''--always''] fa
           = (Inr reply, fb)"
  shows "submodules_status_loop E gm root [name] w =
         Ok () (w\<lparr>fs := fb,
                  out := out w @ [status_line name (git gm name ''esmtag'') (rstrip reply)],
                  calls := calls w @ [Construct (join root (get gm name ''path'')),
                     Operation (join root (get gm name ''path''))
                       [''describe'', ''--tags'', ''--always'']]\<rparr>)"
  using assms
  by (simp add: Let_def bind_def pushd_isdir GitInterface_def git_op_def status_line_def
        print_def)

theorem status_classification_witness:
  "(case submodules_status_loop ex_query_env ex_manifest ''/top'' [''foo''] ex_checked_out of
      Ok u w \<Rightarrow> out w = [''Submodule foo at tag v1.0''] | Raise e w \<Rightarrow> False
    | OutOfFuel \<Rightarrow> False)
   \<and> (case submodules_status_loop ex_query_env ex_manifest ''/top'' [''bar''] ex_checked_out of
      Ok u w \<Rightarrow> out w = [''Submodule bar v1.0 is out of sync with .gitmodules v2.0'']
    | Raise e w \<Rightarrow> False | OutOfFuel \<Rightarrow> False)
   \<and> (case submodules_status_loop ex_query_env ex_manifest ''/top'' [''baz''] ex_checked_out of
      Ok u w \<Rightarrow> out w = [''Submodule baz has no tag defined in .gitmodules'']
    | Raise e w \<Rightarrow> False | OutOfFuel \<Rightarrow> False)"
proof -
  have foo: "submodules_status_loop ex_query_env ex_manifest ''/top'' [''foo''] ex_checked_out =
      Ok () (ex_checked_out\<lparr>fs := fs ex_checked_out,
         out := out ex_checked_out @ [status_line ''foo'' (git ex_manifest ''foo'' ''esmtag'')
                   (rstrip (''v1.0'' @ [CHR 0x0A]))],
         calls := calls ex_checked_out @ [Construct (join ''/top'' (get ex_manifest ''foo'' ''path'')),
            Operation (join ''/top'' (get ex_manifest ''foo'' ''path''))
              [''describe'', ''--tags'', ''--always'']]\<rparr>)"
    by (rule status_classification [where fa = "fs ex_checked_out"])
       (simp_all add: run_simps ex_defs ex_defs2 abspath_def)
  have bar: "submodules_status_loop ex_query_env ex_manifest ''/top'' [''bar''] ex_checked_out =
      Ok () (ex_checked_out\<lparr>fs := fs ex_checked_out,
         out := out ex_checked_out @ [status_line ''bar'' (git ex_manifest ''bar'' ''esmtag'')
                   (rstrip (''v1.0'' @ [CHR 0x0A]))],
         calls := calls ex_checked_out @ [Construct (join ''/top'' (get ex_manifest ''bar'' ''path'')),
            Operation (join ''/top'' (get ex_manifest ''bar'' ''path''))
              [''describe'', ''--tags'', ''--always'']]\<rparr>)"
    by (rule status_classification [where fa = "fs ex_checked_out"])
       (simp_all add: run_simps ex_defs ex_defs2 abspath_def)
  have baz: "submodules_status_loop ex_query_env ex_manifest ''/top'' [''baz''] ex_checked_out =
      Ok () (ex_checked_out\<lparr>fs := fs ex_checked_out,
         out := out ex_checked_out @ [status_line ''baz'' (git ex_manifest ''baz'' ''esmtag'')
                   (rstrip (''v1.0'' @ [CHR 0x0A]))],
         calls := calls ex_checked_out @ [Construct (join ''/top'' (get ex_manifest ''baz'' ''path'')),
            Operation (join ''/top'' (get ex_manifest ''baz'' ''path''))
              [''describe'', ''--tags'', ''--always'']]\<rparr>)"
    by (rule status_classification [where fa = "fs ex_checked_out"])
       (simp_all add: run_simps ex_defs ex_defs2 abspath_def)
  show ?thesis
    by (simp only: foo bar baz)
       (simp add: status_line_def ex_checked_out_def ex_manifest_def manifest_def rstrip_def
          isspace_def)
qed



text \<open>
  C8. When the version-control operation of a full checkout has returned, and the install of
  a manifest found in the directory (if there is one) has returned, the \<open>.git\<close> entry of
  the component's path is tested: the success line naming the component is printed when it
  exists, and the fatal error naming the component is raised when it does not.
\<close>

theorem checkout_marker_check:
  assumes "git_construct E (cwd w) root (fs w) = (None, fa)"
      and "git_operation E (cwd w) root [''submodule'', ''update'', ''--init'', path] fa
           = (Inr x, fb)"
      and "(\<not> os_path_exists (w\<lparr>fs := fb\<rparr>) (join (join root path) ''.gitmodules'')
            \<and> wn = w\<lparr>fs := fb,
                       calls := calls w @ [Construct root,
                          Operation root [''submodule'', ''update'', ''--init'', path]]\<rparr>)
           \<or> (os_path_exists (w\<lparr>fs := fb\<rparr>) (join (join root path) ''.gitmodules'')
               \<and> GitModules E (join root path)
                    (print (''Recursively checking out submodules of '' @ name
                              @ '' '' @ join root path)
                       (w\<lparr>fs := fb,
                          calls := calls w @ [Construct root,
                             Operation root [''submodule'', ''update'', ''--init'', path]]\<rparr>))
                  = Ok g wg
               \<and> n = Suc k
               \<and> submodules_install k E g (join root path) (PyStr ''I:T'') wg = Ok () wn)"
  shows "submodule_checkout n E root name path w =
         (if os_path_exists wn (join (join root path) ''.git'')
          then Ok () (print (''Successfully checked out '' @ name) wn)
          else Raise (FatalError (''Failed to checkout '' @ name)) wn)"
  using assms by (rule full_checkout_run)

theorem checkout_marker_check_witness:
  "submodule_checkout 0 ex_env ''/top'' ''bar'' ''ext/bar'' ex_world =
     Ok () (print ''Successfully checked out bar''
       (ex_world\<lparr>fs := populate (fs ex_world) [''top'', ''ext'', ''bar''],
           calls := [Construct ''/top'',
              Operation ''/top'' [''submodule'', ''update'', ''--init'', ''ext/bar'']]\<rparr>))
   \<and> submodule_checkout 0 ex_git_env ''/top'' ''bar'' ''ext/bar'' ex_world =
     Raise (FatalError ''Failed to checkout bar'')
       (ex_world\<lparr>calls := [Construct ''/top'',
              Operation ''/top'' [''submodule'', ''update'', ''--init'', ''ext/bar'']]\<rparr>)"
proof -
  have present: "submodule_checkout 0 ex_env ''/top'' ''bar'' ''ext/bar'' ex_world =
     Ok () (print ''Successfully checked out bar''
       (ex_world\<lparr>fs := populate (fs ex_world) [''top'', ''ext'', ''bar''],
           calls := [Construct ''/top'',
              Operation ''/top'' [''submodule'', ''update'', ''--init'', ''ext/bar'']]\<rparr>))"
    by (rule trans [OF checkout_marker_check [where fa = "fs ex_world" and x = "[]"
            and fb = "populate (fs ex_world) [''top'', ''ext'', ''bar'']"
            and wn = "ex_world\<lparr>fs := populate (fs ex_world) [''top'', ''ext'', ''bar''],
                    calls := [Construct ''/top'',
                      Operation ''/top'' [''submodule'', ''update'', ''--init'', ''ext/bar'']]\<rparr>"]])
       (simp_all add: run_simps ex_defs)
  have absent: "submodule_checkout 0 ex_git_env ''/top'' ''bar'' ''ext/bar'' ex_world =
     Raise (FatalError ''Failed to checkout bar'')
       (ex_world\<lparr>calls := [Construct ''/top'',
              Operation ''/top'' [''submodule'', ''update'', ''--init'', ''ext/bar'']]\<rparr>)"
    by (rule trans [OF checkout_marker_check [where fa = "fs ex_world" and x = "[]"
            and fb = "fs ex_world"
            and wn = "ex_world\<lparr>calls := [Construct ''/top'',
                      Operation ''/top'' [''submodule'', ''update'', ''--init'', ''ext/bar'']]\<rparr>"]])
       (simp_all add: run_simps ex_defs)
  from present absent show ?thesis by (intro conjI)
qed

text \<open>
  C10. In a top-level install a component whose class is not accepted and does not contain
  \<open>T:F\<close> is passed over: the state after it is the state before it, so nothing is printed
  and no checkout is attempted.
\<close>

theorem install_silent_skip:
  assumes "\<not> py_in (get gm name ''esmrequired'') (esmrequired_of optional)"
      and "\<not> substr ''T:F'' (get gm name ''esmrequired'')"
  shows "submodules_install_loop n E gm root (esmrequired_of optional) (name # rest) w =
         submodules_install_loop n E gm root (esmrequired_of optional) rest w
       \<and> submodules_install_loop n E gm root (esmrequired_of optional) [name] w = Ok () w"
  using assms by (simp add: install_skip)

theorem install_silent_skip_witness:
  "\<not> py_in (get ex_manifest ''baz'' ''esmrequired'') (esmrequired_of False)
   \<and> \<not> substr ''T:F'' (get ex_manifest ''baz'' ''esmrequired'')
   \<and> submodules_install_loop 0 ex_env ex_manifest ''/top'' (esmrequired_of False) [''baz'']
        ex_world = Ok () ex_world"
proof -
  have a: "\<not> py_in (get ex_manifest ''baz'' ''esmrequired'') (esmrequired_of False)"
    by (simp add: ex_manifest_def manifest_def esmrequired_of_def)
  have b: "\<not> substr ''T:F'' (get ex_manifest ''baz'' ''esmrequired'')"
    by (simp add: ex_manifest_def manifest_def)
  show ?thesis
    using a b install_silent_skip [OF a b, of 0 ex_env "''/top''" "[]" ex_world] by simp
qed

end
